theory Spec2Isabelle
  imports Main "HOL-Library.AList"
begin

section \<open>JavaScript values used by the sources\<close>

text \<open>
  \<open>String(n)\<close> for an integer \<open>n\<close>: the decimal digits, with a leading minus sign
  for a negative number. Template literals and string concatenation apply it to numbers.
\<close>

definition digit_char :: "nat \<Rightarrow> char" where
  "digit_char d = ''0123456789'' ! d"

fun String_nat :: "nat \<Rightarrow> string" where
  "String_nat n =
     (if n < 10 then [digit_char n]
      else String_nat (n div 10) @ [digit_char (n mod 10)])"

declare String_nat.simps [simp del]

definition String_int :: "int \<Rightarrow> string" where
  "String_int i = (if i < 0 then CHR ''-'' # String_nat (nat (- i)) else String_nat (nat i))"

text \<open>\<open>s.padStart(2, '0')\<close>: zeros in front until the string has two characters.\<close>

definition padStart2 :: "string \<Rightarrow> string" where
  "padStart2 s = replicate (2 - length s) CHR ''0'' @ s"

section \<open>utils/dateUtils.js\<close>

text \<open>
  The argument \<open>dateInput\<close> of the formatters: \<open>undefined\<close> or \<open>null\<close> (absent), a
  string, or a \<open>Date\<close> object, whose time value is a number of milliseconds since the epoch
  or \<open>NaN\<close> (\<open>None\<close>, an Invalid Date).
\<close>

datatype date_input = Undefined | Null | StringInput string | DateInput "int option"

text \<open>
  What the JavaScript engine provides and the source only calls: the parser behind
  \<open>new Date(string)\<close> (\<open>None\<close> when the string is no date), the clock read by
  \<open>new Date()\<close>, the local-time field getters of a valid \<open>Date\<close> (by time value) and
  \<open>toISOString\<close>.
\<close>

record date_host =
  parse :: "string \<Rightarrow> int option"
  now :: int
  getDate :: "int \<Rightarrow> int"
  getMonth :: "int \<Rightarrow> int"
  getFullYear :: "int \<Rightarrow> int"
  getHours :: "int \<Rightarrow> int"
  getMinutes :: "int \<Rightarrow> int"
  getSeconds :: "int \<Rightarrow> int"
  toISOString :: "int \<Rightarrow> string"

text \<open>\<open>!dateInput\<close> is false exactly for the truthy inputs: a non-empty string, any object.\<close>

fun truthy :: "date_input \<Rightarrow> bool" where
  "truthy Undefined = False"
| "truthy Null = False"
| "truthy (StringInput s) = (s \<noteq> [])"
| "truthy (DateInput t) = True"

text \<open>
  \<open>new Date(dateInput)\<close>, as its time value; \<open>isNaN(date.getTime())\<close> holds exactly
  when it is \<open>None\<close>. \<open>new Date(undefined)\<close> is invalid, \<open>new Date(null)\<close> is the epoch.
\<close>

fun newDate :: "('a date_host_scheme) \<Rightarrow> date_input \<Rightarrow> int option" where
  "newDate h Undefined = None"
| "newDate h Null = Some 0"
| "newDate h (StringInput s) = parse h s"
| "newDate h (DateInput t) = t"

definition formatDate :: "('a date_host_scheme) \<Rightarrow> date_input \<Rightarrow> string" where
  "formatDate h dateInput =
     (if \<not> truthy dateInput then ''''
      else case newDate h dateInput of
        None \<Rightarrow> ''''
      | Some date \<Rightarrow>
          (let day = padStart2 (String_int (getDate h date));
               month = padStart2 (String_int (getMonth h date + 1));
               year = String_int (getFullYear h date)
           in day @ ''/'' @ month @ ''/'' @ year))"

definition formatDateTime :: "('a date_host_scheme) \<Rightarrow> date_input \<Rightarrow> string" where
  "formatDateTime h dateInput =
     (if \<not> truthy dateInput then ''''
      else case newDate h dateInput of
        None \<Rightarrow> ''''
      | Some date \<Rightarrow>
          (let day = padStart2 (String_int (getDate h date));
               month = padStart2 (String_int (getMonth h date + 1));
               year = String_int (getFullYear h date);
               hours = padStart2 (String_int (getHours h date));
               minutes = padStart2 (String_int (getMinutes h date))
           in day @ ''/'' @ month @ ''/'' @ year @ '' '' @ hours @ '':'' @ minutes))"

definition formatDateTimeFull :: "('a date_host_scheme) \<Rightarrow> date_input \<Rightarrow> string" where
  "formatDateTimeFull h dateInput =
     (if \<not> truthy dateInput then ''''
      else case newDate h dateInput of
        None \<Rightarrow> ''''
      | Some date \<Rightarrow>
          (let day = padStart2 (String_int (getDate h date));
               month = padStart2 (String_int (getMonth h date + 1));
               year = String_int (getFullYear h date);
               hours = padStart2 (String_int (getHours h date));
               minutes = padStart2 (String_int (getMinutes h date));
               seconds = padStart2 (String_int (getSeconds h date))
           in day @ ''/'' @ month @ ''/'' @ year @ '' '' @ hours @ '':'' @ minutes
                @ '':'' @ seconds))"

text \<open>
  The plural suffix \<open>n !== 1 ? 's' : ''\<close> and the sentence
  \<open>`${n} unit${...} ago`\<close> shared by the five counted buckets.
\<close>

definition ago :: "int \<Rightarrow> string \<Rightarrow> string" where
  "ago n unit = String_int n @ '' '' @ unit @ (if n \<noteq> 1 then ''s'' else '''') @ '' ago''"

text \<open>
  Time values are whole milliseconds, so \<open>Math.floor((now - date) / 1000)\<close> is the
  integer quotient rounded down, which is \<open>div\<close> on \<open>int\<close>; likewise for the later
  \<open>Math.floor\<close> quotients.
\<close>

definition formatRelativeTime :: "('a date_host_scheme) \<Rightarrow> date_input \<Rightarrow> string" where
  "formatRelativeTime h dateInput =
     (if \<not> truthy dateInput then ''''
      else case newDate h dateInput of
        None \<Rightarrow> ''''
      | Some date \<Rightarrow>
          (let diffInSeconds = (now h - date) div 1000 in
           if diffInSeconds < 60 then ''Just now''
           else if diffInSeconds < 3600 then ago (diffInSeconds div 60) ''minute''
           else if diffInSeconds < 86400 then ago (diffInSeconds div 3600) ''hour''
           else if diffInSeconds < 2592000 then ago (diffInSeconds div 86400) ''day''
           else if diffInSeconds < 31536000 then ago (diffInSeconds div 2592000) ''month''
           else ago (diffInSeconds div 31536000) ''year''))"

definition formatISO :: "('a date_host_scheme) \<Rightarrow> date_input \<Rightarrow> string" where
  "formatISO h dateInput =
     (if \<not> truthy dateInput then ''''
      else case newDate h dateInput of
        None \<Rightarrow> ''''
      | Some date \<Rightarrow> toISOString h date)"

section \<open>utils/urlUtils.js\<close>

text \<open>
  \<open>process.env\<close> is a map from variable names to strings. \<open>a || b\<close> yields \<open>b\<close> when
  \<open>a\<close> is \<open>undefined\<close> or the empty string.
\<close>

definition getBaseUrl :: "(string \<rightharpoonup> string) \<Rightarrow> string" where
  "getBaseUrl env =
     (if env ''NODE_ENV'' = Some ''development'' then ''http://localhost:3000''
      else case env ''REACT_APP_BASE_URL'' of
        None \<Rightarrow> ''https://oglasheabutter.com''
      | Some u \<Rightarrow> if u = [] then ''https://oglasheabutter.com'' else u)"

section \<open>admin/pages/Activities.js: state\<close>

text \<open>
  The page component \<open>Activities\<close> keeps seven pieces of state (\<open>useState\<close>). Its
  handlers are modelled as functions from the state to the new state and the list of the
  effects they cause on the outside (requests, dialogs, console output, downloads), in
  the order the source causes them.
\<close>

record activity =
  activity_id :: int
  action :: string
  entityType :: string
  entityId :: "string option"
  details :: "string option"
  user :: string
  createdAt :: string
  ipAddress :: "string option"

text \<open>A filter value is the number of the initial state or a string of a select box.\<close>

datatype filter_value = Num int | Str string

fun String_value :: "filter_value option \<Rightarrow> string" where
  "String_value None = ''undefined''"
| "String_value (Some (Num n)) = String_int n"
| "String_value (Some (Str s)) = s"

text \<open>
  The \<open>filters\<close> object, as its properties in insertion order:
  \<open>{...prev, [key]: value}\<close> overwrites the property in place or appends it, which is
  \<open>AList.update\<close>; \<open>filters.days\<close> is \<open>map_of\<close>.
\<close>

type_synonym filters = "(string \<times> filter_value) list"

record pagination =
  page :: int
  limit :: int
  total_count :: int
  pages :: int

record stats =
  dailyStats :: "(string \<times> int) list option"
  topUsers :: "string list option"
  activityStats :: "(string \<times> int) list option"

record log_purge_status =
  status_total :: int
  ageRanges :: "(string \<times> int) list"
  oldestRecord :: "string option"
  newestRecord :: "string option"

record state =
  activities :: "activity list"
  stats :: "stats option"
  loading :: bool
  filters :: filters
  pagination :: pagination
  logPurgeStatus :: "log_purge_status option"
  purging :: bool

text \<open>The initial values given to \<open>useState\<close>.\<close>

definition initial_state :: state where
  "initial_state =
     \<lparr>activities = [],
      stats = Some \<lparr>dailyStats = None, topUsers = None, activityStats = None\<rparr>,
      loading = True,
      filters = [(''entityType'', Str []), (''action'', Str []), (''userId'', Str []),
                 (''days'', Num 30)],
      pagination = \<lparr>page = 1, limit = 50, total_count = 0, pages = 0\<rparr>,
      logPurgeStatus = None,
      purging = False\<rparr>"

subsection \<open>Requests, responses and effects\<close>

text \<open>
  A request to the \<open>api\<close> client: the path and the query as the list of pairs handed to
  \<open>URLSearchParams\<close> (values already turned into strings), or the path and the JSON body
  of a POST.
\<close>

datatype request =
  Get string "(string \<times> string) list"
| Post string "(string \<times> int) list"

datatype effect =
  Request request
| Confirm string
| Alert string
| ConsoleError string
| Download string string

text \<open>
  How an awaited request settles: the promise is rejected (transport error), or it
  resolves with \<open>response.data\<close>.
\<close>

datatype 'a api_result = Rejected | Resolved 'a

text \<open>
  The body of an activities response. A field is \<open>None\<close> when the property is missing
  or holds a falsy value, which \<open>||\<close> treats alike. The body itself may be \<open>null\<close>:
  the fetch takes a \<open>response_body option\<close>.
\<close>

record payload =
  r_activities :: "activity list option"
  r_pagination :: "pagination option"

record response_body = payload +
  r_data :: "payload option"

record status_body =
  s_data :: "log_purge_status option"

record purge_response =
  success :: bool
  deletedCount :: "int option"
  message :: "string option"

fun String_count :: "int option \<Rightarrow> string" where
  "String_count None = ''undefined''"
| "String_count (Some n) = String_int n"

fun String_message :: "string option \<Rightarrow> string" where
  "String_message None = ''undefined''"
| "String_message (Some m) = m"

section \<open>admin/pages/Activities.js: fetches and handlers\<close>

text \<open>
  An \<open>async\<close> function runs up to its \<open>await\<close>, where the request has been issued, and
  resumes when the request settles. Each fetch is therefore two functions, the part before
  the \<open>await\<close> and the part after it; \<open>filters\<close> and \<open>pagination\<close> are read from the
  state of the render that created the closure, which is the state passed in.
\<close>

definition activitiesParams :: "state \<Rightarrow> (string \<times> string) list" where
  "activitiesParams s =
     map (\<lambda>(k, v). (k, String_value (Some v)))
       (foldl (\<lambda>obj (k, v). AList.update k v obj)
          [(''page'', Num (page (pagination s))), (''limit'', Num (limit (pagination s)))]
          (filters s))"

definition fetchActivities_request :: "state \<Rightarrow> state \<times> effect list" where
  "fetchActivities_request s =
     (s\<lparr>loading := True\<rparr>, [Request (Get ''/activities'' (activitiesParams s))])"

text \<open>
  \<open>response.data.data?.activities || response.data.activities || []\<close>, and the same
  for \<open>pagination\<close> with the literal block as the last alternative. Reading
  \<open>response.data.data\<close> when \<open>response.data\<close> is \<open>null\<close> throws a \<open>TypeError\<close>, which the
  \<open>catch\<close> logs like a rejected request; \<open>finally\<close> clears \<open>loading\<close> on every path.
\<close>

definition activitiesData :: "response_body \<Rightarrow> activity list" where
  "activitiesData body =
     (case (case r_data body of None \<Rightarrow> None | Some d \<Rightarrow> r_activities d) of
        Some a \<Rightarrow> a
      | None \<Rightarrow> (case r_activities body of Some a \<Rightarrow> a | None \<Rightarrow> []))"

definition paginationData :: "response_body \<Rightarrow> pagination" where
  "paginationData body =
     (case (case r_data body of None \<Rightarrow> None | Some d \<Rightarrow> r_pagination d) of
        Some p \<Rightarrow> p
      | None \<Rightarrow>
          (case r_pagination body of
             Some p \<Rightarrow> p
           | None \<Rightarrow> \<lparr>page = 1, limit = 50, total_count = 0, pages = 0\<rparr>))"

definition fetchActivities_response ::
  "response_body option api_result \<Rightarrow> state \<Rightarrow> state \<times> effect list" where
  "fetchActivities_response result s =
     (case result of
        Rejected \<Rightarrow> (s\<lparr>loading := False\<rparr>, [ConsoleError ''Error fetching activities:''])
      | Resolved None \<Rightarrow> (s\<lparr>loading := False\<rparr>, [ConsoleError ''Error fetching activities:''])
      | Resolved (Some body) \<Rightarrow>
          (s\<lparr>activities := activitiesData body, pagination := paginationData body,
             loading := False\<rparr>, []))"

definition fetchActivities ::
  "response_body option api_result \<Rightarrow> state \<Rightarrow> state \<times> effect list" where
  "fetchActivities result s =
     (let (s1, e1) = fetchActivities_request s;
          (s2, e2) = fetchActivities_response result s1
      in (s2, e1 @ e2))"

definition fetchStats_request :: "state \<Rightarrow> state \<times> effect list" where
  "fetchStats_request s =
     (s, [Request (Get ''/activities/stats''
            [(''days'', String_value (map_of (filters s) ''days''))])])"

definition fetchStats_response :: "stats option api_result \<Rightarrow> state \<Rightarrow> state \<times> effect list" where
  "fetchStats_response result s =
     (case result of
        Rejected \<Rightarrow> (s, [ConsoleError ''Error fetching stats:''])
      | Resolved body \<Rightarrow> (s\<lparr>stats := body\<rparr>, []))"

definition fetchLogPurgeStatus_request :: "state \<Rightarrow> state \<times> effect list" where
  "fetchLogPurgeStatus_request s = (s, [Request (Get ''/log-purge/status'' [])])"

definition fetchLogPurgeStatus_response ::
  "status_body option api_result \<Rightarrow> state \<Rightarrow> state \<times> effect list" where
  "fetchLogPurgeStatus_response result s =
     (case result of
        Rejected \<Rightarrow> (s, [ConsoleError ''Error fetching log purge status:''])
      | Resolved None \<Rightarrow> (s, [ConsoleError ''Error fetching log purge status:''])
      | Resolved (Some body) \<Rightarrow> (s\<lparr>logPurgeStatus := s_data body\<rparr>, []))"

text \<open>
  \<open>handleFilterChange\<close>: two functional state updates. The effect hook that refetches
  afterwards is a later event and not part of the handler.
\<close>

definition handleFilterChange :: "string \<Rightarrow> filter_value \<Rightarrow> state \<Rightarrow> state" where
  "handleFilterChange key v s =
     s\<lparr>filters := AList.update key v (filters s),
       pagination := (pagination s)\<lparr>page := 1\<rparr>\<rparr>"

text \<open>
  \<open>handleExport\<close>, given how the CSV request settles. On success the blob is offered as
  a download through a temporary anchor; on failure the error is logged. No state setter is
  called on either path.
\<close>

definition handleExport :: "string api_result \<Rightarrow> state \<Rightarrow> state \<times> effect list" where
  "handleExport result s =
     (let days = String_value (map_of (filters s) ''days'') in
      (s, Request (Get ''/activities/export/csv'' [(''days'', days)]) #
          (case result of
             Resolved blob \<Rightarrow> [Download (''activities-export-'' @ days @ ''days.csv'') blob]
           | Rejected \<Rightarrow> [ConsoleError ''Error exporting activities:''])))"

text \<open>
  \<open>handleLogPurge(daysOld)\<close>, given the answer to \<open>window.confirm\<close> and how the POST
  settles. The three refetch calls are not awaited: each runs to its own \<open>await\<close>, which
  issues its request, before \<open>finally\<close> clears \<open>purging\<close>. A \<open>null\<close> response body makes
  \<open>response.data.success\<close> throw, which lands in the same \<open>catch\<close> as a rejected request.
\<close>

definition confirmMessage :: "int \<Rightarrow> string" where
  "confirmMessage n =
     ''Are you sure you want to delete all activity logs older than '' @ String_int n
       @ '' days? This action cannot be undone.''"

definition handleLogPurge ::
  "int \<Rightarrow> bool \<Rightarrow> purge_response option api_result \<Rightarrow> state \<Rightarrow> state \<times> effect list" where
  "handleLogPurge n confirmed result s =
     (if \<not> confirmed then (s, [Confirm (confirmMessage n)])
      else
        (let s1 = s\<lparr>purging := True\<rparr>;
             sent = [Confirm (confirmMessage n),
                     Request (Post ''/log-purge/manual'' [(''daysOld'', n)])]
         in case result of
              Resolved (Some r) \<Rightarrow>
                if success r then
                  (let (s2, e2) = fetchActivities_request s1;
                       (s3, e3) = fetchStats_request s2;
                       (s4, e4) = fetchLogPurgeStatus_request s3
                   in (s4\<lparr>purging := False\<rparr>,
                       sent @ [Alert (''Successfully purged '' @ String_count (deletedCount r)
                                 @ '' old log records.'')] @ e2 @ e3 @ e4))
                else
                  (s1\<lparr>purging := False\<rparr>,
                   sent @ [Alert (''Failed to purge logs: '' @ String_message (message r))])
            | Resolved None \<Rightarrow>
                (s1\<lparr>purging := False\<rparr>,
                 sent @ [ConsoleError ''Error purging logs:'',
                         Alert ''Failed to purge logs. Please try again.''])
            | Rejected \<Rightarrow>
                (s1\<lparr>purging := False\<rparr>,
                 sent @ [ConsoleError ''Error purging logs:'',
                         Alert ''Failed to purge logs. Please try again.''])))"



section \<open>admin/pages/Activities.js: rendering\<close>

text \<open>
  Of the markup the component returns, the model keeps the two purge buttons and the
  page-number control. A purge button is its label, \<open>disabled\<close> attribute and click
  argument.
\<close>

record button =
  label :: string
  disabled :: bool
  daysOld :: int

definition purgePanel :: "state \<Rightarrow> button list" where
  "purgePanel s =
     [\<lparr>label = (if purging s then ''Purging...'' else ''Purge Logs (30+ days)''),
       disabled = purging s, daysOld = 30\<rparr>,
      \<lparr>label = (if purging s then ''Purging...'' else ''Purge Logs (90+ days)''),
       disabled = purging s, daysOld = 90\<rparr>]"

text \<open>
  The page-number control. \<open>Array.from({ length: pagination.pages }, (_, i) => i + 1)\<close>
  is the list \<open>1, ..., pages\<close> (empty when \<open>pages\<close> is not positive). The callback
  returns a button, an ellipsis or \<open>null\<close> for each number; only the button's
  highlighting class, which does not decide what is rendered, is left out.
\<close>

datatype page_item = PageButton int | Ellipsis int

definition pageRange :: "int \<Rightarrow> int list" where
  "pageRange n = map (\<lambda>i. int i + 1) [0..<nat n]"

definition pageNumberItem :: "pagination \<Rightarrow> int \<Rightarrow> page_item option" where
  "pageNumberItem pg k =
     (if k = 1 \<or> k = pages pg \<or> (k \<ge> page pg - 2 \<and> k \<le> page pg + 2)
      then Some (PageButton k)
      else if k = page pg - 3 \<or> k = page pg + 3 then Some (Ellipsis k)
      else None)"

text \<open>React renders nothing for \<open>null\<close>: the children shown are the other results.\<close>

definition pageNumbers :: "pagination \<Rightarrow> page_item list" where
  "pageNumbers pg = List.map_filter (pageNumberItem pg) (pageRange (pages pg))"

text \<open>
  \<open>pagination.pages > 1 && (...)\<close>: the whole control, with its Previous and Next
  buttons, exists only when there is more than one page.
\<close>

definition paginationControl :: "pagination \<Rightarrow> page_item list option" where
  "paginationControl pg = (if pages pg > 1 then Some (pageNumbers pg) else None)"

text \<open>
  What the component returns. While \<open>loading\<close> is set and no activity is loaded
  (\<open>loading && activities.length === 0\<close>) it returns the spinner alone, before any of the
  page markup; otherwise the page with the purge buttons and the pagination control.
\<close>

datatype view = Spinner | Page "button list" "page_item list option"

definition render :: "state \<Rightarrow> view" where
  "render s =
     (if loading s \<and> length (activities s) = 0 then Spinner
      else Page (purgePanel s) (paginationControl (pagination s)))"

text \<open>The purge buttons on the screen: none while the spinner replaces the page.\<close>

definition purgeButtons :: "state \<Rightarrow> button list" where
  "purgeButtons s = (case render s of Spinner \<Rightarrow> [] | Page bs c \<Rightarrow> bs)"




section \<open>Properties of the date formatters\<close>

lemma String_int_1: "String_int 1 = ''1''"
  by (simp add: String_int_def String_nat.simps digit_char_def)

text \<open>
  Claim C3. An input that is absent (\<open>undefined\<close>, \<open>null\<close>, the empty string) or
  whose \<open>Date\<close> is invalid (a string the parser rejects, an Invalid Date object) makes each
  of \<open>formatDate\<close>, \<open>formatDateTime\<close>, \<open>formatDateTimeFull\<close>, \<open>formatRelativeTime\<close> and
  \<open>formatISO\<close> return the empty string.
\<close>

theorem formatters_empty_on_absent_or_invalid:
  assumes "\<not> truthy dateInput \<or> newDate h dateInput = None"
  shows "formatDate h dateInput = ''''
       \<and> formatDateTime h dateInput = ''''
       \<and> formatDateTimeFull h dateInput = ''''
       \<and> formatRelativeTime h dateInput = ''''
       \<and> formatISO h dateInput = ''''"
  using assms
  by (auto simp: formatDate_def formatDateTime_def formatDateTimeFull_def
      formatRelativeTime_def formatISO_def)

theorem formatters_empty_on_absent_or_invalid_witness:
  "formatDate \<lparr>parse = (\<lambda>s. None), now = 0, getDate = (\<lambda>t. 1), getMonth = (\<lambda>t. 0),
       getFullYear = (\<lambda>t. 1970), getHours = (\<lambda>t. 0), getMinutes = (\<lambda>t. 0),
       getSeconds = (\<lambda>t. 0), toISOString = (\<lambda>t. ''1970-01-01T00:00:00.000Z'')\<rparr>
     (StringInput ''not a date'') = ''''
   \<and> formatISO \<lparr>parse = (\<lambda>s. None), now = 0, getDate = (\<lambda>t. 1), getMonth = (\<lambda>t. 0),
       getFullYear = (\<lambda>t. 1970), getHours = (\<lambda>t. 0), getMinutes = (\<lambda>t. 0),
       getSeconds = (\<lambda>t. 0), toISOString = (\<lambda>t. ''1970-01-01T00:00:00.000Z'')\<rparr>
     (DateInput None) = ''''
   \<and> formatRelativeTime \<lparr>parse = (\<lambda>s. None), now = 0, getDate = (\<lambda>t. 1),
       getMonth = (\<lambda>t. 0), getFullYear = (\<lambda>t. 1970), getHours = (\<lambda>t. 0),
       getMinutes = (\<lambda>t. 0), getSeconds = (\<lambda>t. 0),
       toISOString = (\<lambda>t. ''1970-01-01T00:00:00.000Z'')\<rparr>
     (StringInput '''') = ''''
   \<and> formatDateTime \<lparr>parse = (\<lambda>s. None), now = 0, getDate = (\<lambda>t. 1), getMonth = (\<lambda>t. 0),
       getFullYear = (\<lambda>t. 1970), getHours = (\<lambda>t. 0), getMinutes = (\<lambda>t. 0),
       getSeconds = (\<lambda>t. 0), toISOString = (\<lambda>t. ''1970-01-01T00:00:00.000Z'')\<rparr>
     Undefined = ''''
   \<and> formatDateTimeFull \<lparr>parse = (\<lambda>s. None), now = 0, getDate = (\<lambda>t. 1),
       getMonth = (\<lambda>t. 0), getFullYear = (\<lambda>t. 1970), getHours = (\<lambda>t. 0),
       getMinutes = (\<lambda>t. 0), getSeconds = (\<lambda>t. 0),
       toISOString = (\<lambda>t. ''1970-01-01T00:00:00.000Z'')\<rparr>
     Null = ''''"
proof -
  let ?h = "\<lparr>parse = (\<lambda>s. None), now = 0, getDate = (\<lambda>t. 1), getMonth = (\<lambda>t. 0),
       getFullYear = (\<lambda>t. 1970), getHours = (\<lambda>t. 0), getMinutes = (\<lambda>t. 0),
       getSeconds = (\<lambda>t. 0), toISOString = (\<lambda>t. ''1970-01-01T00:00:00.000Z'')\<rparr>"
  have a: "\<not> truthy (StringInput ''not a date'') \<or> newDate ?h (StringInput ''not a date'') = None"
    by simp
  have b: "\<not> truthy (DateInput None) \<or> newDate ?h (DateInput None) = None"
    by simp
  have c: "\<not> truthy (StringInput '''') \<or> newDate ?h (StringInput '''') = None"
    by simp
  have d: "\<not> truthy Undefined \<or> newDate ?h Undefined = None"
    by simp
  have e: "\<not> truthy Null \<or> newDate ?h Null = None"
    by simp
  show ?thesis
    using formatters_empty_on_absent_or_invalid [OF a]
      formatters_empty_on_absent_or_invalid [OF b]
      formatters_empty_on_absent_or_invalid [OF c]
      formatters_empty_on_absent_or_invalid [OF d]
      formatters_empty_on_absent_or_invalid [OF e]
    by blast
qed

text \<open>
  Claim C4. For a valid input date, \<open>formatRelativeTime\<close> returns \<open>Just now\<close> when 59
  whole seconds have elapsed, \<open>1 minute ago\<close> at 60, \<open>1 hour ago\<close> at 3600 and
  \<open>1 day ago\<close> at 86400.
\<close>

theorem formatRelativeTime_boundaries:
  assumes "truthy dateInput" and "newDate h dateInput = Some date"
  shows "((now h - date) div 1000 = 59 \<longrightarrow> formatRelativeTime h dateInput = ''Just now'')
       \<and> ((now h - date) div 1000 = 60 \<longrightarrow> formatRelativeTime h dateInput = ''1 minute ago'')
       \<and> ((now h - date) div 1000 = 3600 \<longrightarrow> formatRelativeTime h dateInput = ''1 hour ago'')
       \<and> ((now h - date) div 1000 = 86400 \<longrightarrow> formatRelativeTime h dateInput = ''1 day ago'')"
  using assms
  by (simp add: formatRelativeTime_def ago_def String_int_1)

theorem formatRelativeTime_boundaries_witness:
  "formatRelativeTime \<lparr>parse = (\<lambda>s. None), now = 86400000, getDate = (\<lambda>t. 2),
       getMonth = (\<lambda>t. 0), getFullYear = (\<lambda>t. 1970), getHours = (\<lambda>t. 0),
       getMinutes = (\<lambda>t. 0), getSeconds = (\<lambda>t. 0),
       toISOString = (\<lambda>t. ''1970-01-02T00:00:00.000Z'')\<rparr>
     (DateInput (Some 86341000)) = ''Just now''
   \<and> formatRelativeTime \<lparr>parse = (\<lambda>s. None), now = 86400000, getDate = (\<lambda>t. 2),
       getMonth = (\<lambda>t. 0), getFullYear = (\<lambda>t. 1970), getHours = (\<lambda>t. 0),
       getMinutes = (\<lambda>t. 0), getSeconds = (\<lambda>t. 0),
       toISOString = (\<lambda>t. ''1970-01-02T00:00:00.000Z'')\<rparr>
     (DateInput (Some 86340000)) = ''1 minute ago''
   \<and> formatRelativeTime \<lparr>parse = (\<lambda>s. None), now = 86400000, getDate = (\<lambda>t. 2),
       getMonth = (\<lambda>t. 0), getFullYear = (\<lambda>t. 1970), getHours = (\<lambda>t. 0),
       getMinutes = (\<lambda>t. 0), getSeconds = (\<lambda>t. 0),
       toISOString = (\<lambda>t. ''1970-01-02T00:00:00.000Z'')\<rparr>
     (DateInput (Some 82800000)) = ''1 hour ago''
   \<and> formatRelativeTime \<lparr>parse = (\<lambda>s. None), now = 86400000, getDate = (\<lambda>t. 2),
       getMonth = (\<lambda>t. 0), getFullYear = (\<lambda>t. 1970), getHours = (\<lambda>t. 0),
       getMinutes = (\<lambda>t. 0), getSeconds = (\<lambda>t. 0),
       toISOString = (\<lambda>t. ''1970-01-02T00:00:00.000Z'')\<rparr>
     (DateInput (Some 0)) = ''1 day ago''"
proof -
  let ?h = "\<lparr>parse = (\<lambda>s. None), now = 86400000, getDate = (\<lambda>t. 2),
       getMonth = (\<lambda>t. 0), getFullYear = (\<lambda>t. 1970), getHours = (\<lambda>t. 0),
       getMinutes = (\<lambda>t. 0), getSeconds = (\<lambda>t. 0),
       toISOString = (\<lambda>t. ''1970-01-02T00:00:00.000Z'')\<rparr>"
  have v: "truthy (DateInput (Some t))" for t
    by simp
  have n: "newDate ?h (DateInput (Some t)) = Some t" for t
    by simp
  have "(now ?h - 86341000) div 1000 = 59" and "(now ?h - 86340000) div 1000 = 60"
    and "(now ?h - 82800000) div 1000 = 3600" and "(now ?h - 0) div 1000 = 86400"
    by simp_all
  then show ?thesis
    using formatRelativeTime_boundaries [OF v n, of 86341000]
      formatRelativeTime_boundaries [OF v n, of 86340000]
      formatRelativeTime_boundaries [OF v n, of 82800000]
      formatRelativeTime_boundaries [OF v n, of 0]
    by blast
qed

section \<open>Properties of the base URL\<close>

text \<open>
  Claim C6. When \<open>NODE_ENV\<close> is \<open>development\<close>, \<open>getBaseUrl\<close> returns the local
  development origin whatever the override variable \<open>REACT_APP_BASE_URL\<close> holds, set or
  unset. Otherwise it returns the override when one is present (set to a non-empty
  string), and the production domain when the override is unset or empty.
\<close>

theorem getBaseUrl_decision:
  "(env ''NODE_ENV'' = Some ''development'' \<longrightarrow> getBaseUrl env = ''http://localhost:3000'')
   \<and> (env ''NODE_ENV'' \<noteq> Some ''development'' \<longrightarrow>
        (\<forall>u. env ''REACT_APP_BASE_URL'' = Some u \<and> u \<noteq> [] \<longrightarrow> getBaseUrl env = u)
      \<and> (env ''REACT_APP_BASE_URL'' = None \<or> env ''REACT_APP_BASE_URL'' = Some []
           \<longrightarrow> getBaseUrl env = ''https://oglasheabutter.com''))"
  by (auto simp: getBaseUrl_def)

theorem getBaseUrl_decision_witness:
  "getBaseUrl [''NODE_ENV'' \<mapsto> ''development'',
               ''REACT_APP_BASE_URL'' \<mapsto> ''https://staging.example.com'']
     = ''http://localhost:3000''
   \<and> getBaseUrl [''NODE_ENV'' \<mapsto> ''development''] = ''http://localhost:3000''
   \<and> getBaseUrl [''NODE_ENV'' \<mapsto> ''production'',
                 ''REACT_APP_BASE_URL'' \<mapsto> ''https://staging.example.com'']
       = ''https://staging.example.com''
   \<and> getBaseUrl [''NODE_ENV'' \<mapsto> ''production''] = ''https://oglasheabutter.com''
   \<and> getBaseUrl [''NODE_ENV'' \<mapsto> ''production'', ''REACT_APP_BASE_URL'' \<mapsto> '''']
       = ''https://oglasheabutter.com''"
proof -
  have "getBaseUrl [''NODE_ENV'' \<mapsto> ''development'',
               ''REACT_APP_BASE_URL'' \<mapsto> ''https://staging.example.com'']
     = ''http://localhost:3000''"
    using getBaseUrl_decision [of "[''NODE_ENV'' \<mapsto> ''development'',
               ''REACT_APP_BASE_URL'' \<mapsto> ''https://staging.example.com'']"]
    by simp
  moreover have "getBaseUrl [''NODE_ENV'' \<mapsto> ''development''] = ''http://localhost:3000''"
    using getBaseUrl_decision [of "[''NODE_ENV'' \<mapsto> ''development'']"]
    by simp
  moreover have "getBaseUrl [''NODE_ENV'' \<mapsto> ''production'',
                 ''REACT_APP_BASE_URL'' \<mapsto> ''https://staging.example.com'']
       = ''https://staging.example.com''"
    using getBaseUrl_decision [of "[''NODE_ENV'' \<mapsto> ''production'',
                 ''REACT_APP_BASE_URL'' \<mapsto> ''https://staging.example.com'']"]
    by simp
  moreover have "getBaseUrl [''NODE_ENV'' \<mapsto> ''production''] = ''https://oglasheabutter.com''"
    using getBaseUrl_decision [of "[''NODE_ENV'' \<mapsto> ''production'']"]
    by simp
  moreover have "getBaseUrl [''NODE_ENV'' \<mapsto> ''production'',
      ''REACT_APP_BASE_URL'' \<mapsto> ''''] = ''https://oglasheabutter.com''"
    using getBaseUrl_decision [of "[''NODE_ENV'' \<mapsto> ''production'',
      ''REACT_APP_BASE_URL'' \<mapsto> '''']"]
    by simp
  ultimately show ?thesis
    by blast
qed

section \<open>Properties of the filter handler and the fetches\<close>

text \<open>
  Claim C5. For every filter key, every new value and every prior state (so every prior
  page), \<open>handleFilterChange\<close> leaves \<open>pagination.page\<close> at 1 and the other pagination
  fields \<open>limit\<close>, \<open>total\<close> and \<open>pages\<close> as they were; the filter holds the new value.
\<close>

theorem handleFilterChange_resets_page:
  "page (pagination (handleFilterChange key v s)) = 1
   \<and> limit (pagination (handleFilterChange key v s)) = limit (pagination s)
   \<and> total_count (pagination (handleFilterChange key v s)) = total_count (pagination s)
   \<and> pages (pagination (handleFilterChange key v s)) = pages (pagination s)
   \<and> map_of (filters (handleFilterChange key v s)) key = Some v"
  by (simp add: handleFilterChange_def update_conv')

text \<open>
  Claim C7, as stated, promises the empty list and the fallback block for every body that
  matches neither envelope. A \<open>null\<close> body matches neither, but reading a property of it
  throws, the \<open>catch\<close> swallows the error, and the activities and the pagination already
  on the page stay: here one activity and page 2 of 3.
\<close>

theorem fetchActivities_null_body_counterexample:
  "activities (fst (fetchActivities (Resolved None)
      (initial_state\<lparr>activities :=
          [\<lparr>activity_id = 7, action = ''login'', entityType = ''user'', entityId = None,
            details = None, user = ''admin'', createdAt = ''2024-03-05T00:00:00'',
            ipAddress = None\<rparr>],
        pagination := \<lparr>page = 2, limit = 50, total_count = 120, pages = 3\<rparr>\<rparr>))) \<noteq> []
   \<and> pagination (fst (fetchActivities (Resolved None)
      (initial_state\<lparr>activities :=
          [\<lparr>activity_id = 7, action = ''login'', entityType = ''user'', entityId = None,
            details = None, user = ''admin'', createdAt = ''2024-03-05T00:00:00'',
            ipAddress = None\<rparr>],
        pagination := \<lparr>page = 2, limit = 50, total_count = 120, pages = 3\<rparr>\<rparr>)))
      = \<lparr>page = 2, limit = 50, total_count = 120, pages = 3\<rparr>"
  by (simp add: fetchActivities_def fetchActivities_request_def fetchActivities_response_def
      initial_state_def)

text \<open>
  Claim C7, amended. For every activities response body that is an object, the fetch
  normalizes both envelope shapes to the same state: activities \<open>A\<close> and pagination \<open>P\<close>
  nested under \<open>data\<close> (whatever the top level holds) and the same \<open>A\<close> and \<open>P\<close> flat at
  the top level (with no \<open>data\<close>, or a \<open>data\<close> without the two fields) both end in
  \<open>activities = A\<close>, \<open>pagination = P\<close>. A body that carries neither field in either
  place sets activities to the empty list and pagination to the block
  \<open>{page: 1, limit: 50, total: 0, pages: 0}\<close>. In each case \<open>loading\<close> is cleared and
  nothing else changes.
\<close>

theorem fetchActivities_normalizes:
  "fst (fetchActivities (Resolved (Some
        \<lparr>r_activities = a', r_pagination = p',
         r_data = Some \<lparr>r_activities = Some A, r_pagination = Some P\<rparr>\<rparr>)) s)
     = s\<lparr>activities := A, pagination := P, loading := False\<rparr>
   \<and> fst (fetchActivities (Resolved (Some
        \<lparr>r_activities = Some A, r_pagination = Some P, r_data = None\<rparr>)) s)
     = s\<lparr>activities := A, pagination := P, loading := False\<rparr>
   \<and> fst (fetchActivities (Resolved (Some
        \<lparr>r_activities = Some A, r_pagination = Some P,
         r_data = Some \<lparr>r_activities = None, r_pagination = None\<rparr>\<rparr>)) s)
     = s\<lparr>activities := A, pagination := P, loading := False\<rparr>
   \<and> fst (fetchActivities (Resolved (Some
        \<lparr>r_activities = None, r_pagination = None, r_data = None\<rparr>)) s)
     = s\<lparr>activities := [],
          pagination := \<lparr>page = 1, limit = 50, total_count = 0, pages = 0\<rparr>,
          loading := False\<rparr>
   \<and> fst (fetchActivities (Resolved (Some
        \<lparr>r_activities = None, r_pagination = None,
         r_data = Some \<lparr>r_activities = None, r_pagination = None\<rparr>\<rparr>)) s)
     = s\<lparr>activities := [],
          pagination := \<lparr>page = 1, limit = 50, total_count = 0, pages = 0\<rparr>,
          loading := False\<rparr>"
  by (simp add: fetchActivities_def fetchActivities_request_def fetchActivities_response_def
      activitiesData_def paginationData_def)

section \<open>Properties of the export and the purge\<close>

text \<open>
  Claim C8. When the CSV export request fails, \<open>handleExport\<close> leaves \<open>activities\<close>,
  \<open>stats\<close> and \<open>pagination\<close> exactly as they were before the call.
\<close>

theorem handleExport_failure_frame:
  "activities (fst (handleExport Rejected s)) = activities s
   \<and> stats (fst (handleExport Rejected s)) = stats s
   \<and> pagination (fst (handleExport Rejected s)) = pagination s"
  by (simp add: handleExport_def Let_def)


lemma purgeButtons_eq:
  "purgeButtons s = (if loading s \<and> activities s = [] then [] else purgePanel s)"
  by (simp add: purgeButtons_def render_def)



text \<open>
  Claim C10. A call of \<open>handleLogPurge\<close> that passes the confirmation ends with
  \<open>purging\<close> false however the POST settles: a response reporting success, a response
  reporting failure, a rejected request (and a \<open>null\<close> body, caught like it), so
  both purge buttons are enabled again. When the confirmation is declined the state does
  not change at all.
\<close>

theorem handleLogPurge_clears_purging:
  "\<not> purging (fst (handleLogPurge n True result s))
   \<and> list_all (\<lambda>b. \<not> disabled b) (purgeButtons (fst (handleLogPurge n True result s)))
   \<and> fst (handleLogPurge n False result s) = s"
proof -
  have cleared: "\<not> purging (fst (handleLogPurge n True result s))"
    by (simp add: handleLogPurge_def fetchActivities_request_def
        fetchStats_request_def fetchLogPurgeStatus_request_def Let_def
        split: api_result.split option.split)
  then have "list_all (\<lambda>b. \<not> disabled b) (purgeButtons (fst (handleLogPurge n True result s)))"
    by (simp add: purgeButtons_eq purgePanel_def)
  moreover have "fst (handleLogPurge n False result s) = s"
    by (simp add: handleLogPurge_def)
  ultimately show ?thesis
    using cleared by blast
qed

section \<open>Properties of the page-number control\<close>



















end
